theory Spec2Isabelle
  imports Complex_Main "HOL-Library.AList"
begin

section \<open>Data model\<close>

text \<open>
  A metadata value of a spectrum. Python's \<open>int\<close> and \<open>float\<close> mix freely in the
  arithmetic of the filters below, so both are read as one numeric value over the reals;
  strings are kept apart, because arithmetic on them raises. A key that stores Python's
  \<open>None\<close> is represented as an absent key: \<open>spectrum.get(key)\<close> returns \<open>None\<close> in
  both cases.
\<close>

datatype mval = Num real | Str string

text \<open>
  A spectrum: the metadata dictionary (an association list, in insertion order) and the two
  parallel peak arrays.
\<close>

record spectrum =
  metadata :: "(string \<times> mval) list"
  mz :: "real list"
  intensities :: "real list"

definition spectrum_get :: "spectrum \<Rightarrow> string \<Rightarrow> mval option" where
  "spectrum_get s k = map_of (metadata s) k"

definition spectrum_set :: "spectrum \<Rightarrow> string \<Rightarrow> mval \<Rightarrow> spectrum" where
  "spectrum_set s k v = s\<lparr>metadata := AList.update k v (metadata s)\<rparr>"

text \<open>\<open>clone()\<close> is a deep, independent copy; on values it is the identity.\<close>

definition clone :: "spectrum \<Rightarrow> spectrum" where
  "clone s = s"

datatype py_error = TypeError | ZeroDivisionError

datatype log_level = INFO | WARNING | ERROR

text \<open>A log record: the level and the format string of the call (arguments left out).\<close>

type_synonym log_entry = "log_level \<times> string"

section \<open>Python arithmetic on metadata values\<close>

text \<open>A string operand makes each arithmetic expression of the derivations raise.\<close>

fun num_of :: "mval \<Rightarrow> py_error + real" where
  "num_of (Num r) = Inr r"
| "num_of (Str s) = Inl TypeError"

text \<open>
  True division. Division by zero is an error of the model: Python floats raise
  \<open>ZeroDivisionError\<close>, numpy floats give \<open>inf\<close> or \<open>nan\<close>; neither is a real number.
\<close>

definition py_truediv :: "real \<Rightarrow> real \<Rightarrow> py_error + real" where
  "py_truediv a b = (if b = 0 then Inl ZeroDivisionError else Inr (a / b))"

section \<open>Mass derivation (derive\_precursor\_mz\_and\_parent\_mass.py)\<close>

text \<open>
  What the module imports and this development takes as parameters: the constant
  \<open>PROTON_MASS\<close>, the adduct canonicalizer \<open>_clean_adduct\<close>, the table of
  \<open>load_known_adducts()\<close> as rows (adduct, mass\_multiplier, correction\_mass) in table
  order, and \<open>get_multiplier_and_mass_from_adduct\<close>.
\<close>

record mass_env =
  PROTON_MASS :: real
  clean_adduct :: "mval option \<Rightarrow> mval option"
  load_known_adducts :: "(string \<times> real \<times> real) list"
  get_multiplier_and_mass_from_adduct :: "string \<Rightarrow> real option \<times> real option"

text \<open>
  \<open>_get_multiplier_and_correction_mass_from_adduct\<close>. The cleaned adduct is looked up in
  the adduct column; on a hit the first matching row gives both values. On a miss the source
  calls \<open>get_multiplier_and_mass_from_adduct("adduct")\<close>, with the string literal.
\<close>

definition get_multiplier_and_correction_mass_from_adduct ::
  "mass_env \<Rightarrow> mval option \<Rightarrow> real option \<times> real option" where
  "get_multiplier_and_correction_mass_from_adduct env adduct =
     (case clean_adduct env adduct of
        Some (Str a) \<Rightarrow>
          (case map_of (load_known_adducts env) a of
             Some (multiplier, correction_mass) \<Rightarrow> (Some multiplier, Some correction_mass)
           | None \<Rightarrow> get_multiplier_and_mass_from_adduct env ''adduct'')
      | _ \<Rightarrow> get_multiplier_and_mass_from_adduct env ''adduct'')"

text \<open>\<open>_is_valid_charge\<close>: \<open>charge is not None and charge != 0\<close>; a string is unequal to 0.\<close>

definition is_valid_charge :: "mval option \<Rightarrow> bool" where
  "is_valid_charge charge = (charge \<noteq> None \<and> charge \<noteq> Some (Num 0))"

text \<open>\<open>_get_charge\<close>, with the log records it emits.\<close>

definition get_charge :: "spectrum \<Rightarrow> log_entry list \<times> mval" where
  "get_charge s =
     (case (if is_valid_charge (spectrum_get s ''charge'') then spectrum_get s ''charge'' else None) of
        Some charge \<Rightarrow> ([], charge)
      | None \<Rightarrow>
          if spectrum_get s ''ionmode'' = Some (Str ''positive'') then
            ([(INFO, ''Missing charge entry, but positive ionmode detected. Consider prior run of `correct_charge()` filter.'')],
             Num 1)
          else if spectrum_get s ''ionmode'' = Some (Str ''negative'') then
            ([(INFO, ''Missing charge entry, but negative ionmode detected. Consider prior run of `correct_charge()` filter.'')],
             Num (- 1))
          else
            ([(WARNING, ''Missing charge and ionmode entries. Consider prior run of `derive_ionmode()` and `correct_charge()` filters.'')],
             Num 0))"

text \<open>
  The two arithmetic bodies of \<open>derive_parent_mass_from_precursor_mz\<close>, in the source's
  evaluation order.
\<close>

definition parent_mass_adduct :: "mval \<Rightarrow> real \<Rightarrow> real \<Rightarrow> py_error + real" where
  "parent_mass_adduct precursor_mz multiplier correction_mass =
     (case num_of precursor_mz of
        Inl e \<Rightarrow> Inl e
      | Inr p \<Rightarrow> py_truediv (p - correction_mass) multiplier)"

definition parent_mass_charge :: "mass_env \<Rightarrow> mval \<Rightarrow> mval \<Rightarrow> py_error + real" where
  "parent_mass_charge env precursor_mz charge =
     (case num_of charge of
        Inl e \<Rightarrow> Inl e
      | Inr c \<Rightarrow>
          (case num_of precursor_mz of
             Inl e \<Rightarrow> Inl e
           | Inr p \<Rightarrow>
               (let protons_mass = PROTON_MASS env * c;
                    precursor_mass = p * \<bar>c\<bar>
                in Inr (precursor_mass - protons_mass))))"

definition derive_parent_mass_from_precursor_mz ::
  "mass_env \<Rightarrow> spectrum option \<Rightarrow> bool \<Rightarrow> log_entry list \<times> (py_error + real option)" where
  "derive_parent_mass_from_precursor_mz env spectrum estimate_from_adduct =
     (case spectrum of
        None \<Rightarrow> ([], Inr None)
      | Some s \<Rightarrow>
          (case spectrum_get s ''precursor_mz'' of
             None \<Rightarrow> ([(WARNING, ''Missing precursor m/z to derive parent mass.'')], Inr None)
           | Some precursor_mz \<Rightarrow>
               (let (lg, charge) = get_charge s;
                    by_charge =
                      (if is_valid_charge (Some charge)
                       then map_sum id Some (parent_mass_charge env precursor_mz charge)
                       else Inr None)
                in if estimate_from_adduct then
                     (case get_multiplier_and_correction_mass_from_adduct env (spectrum_get s ''adduct'') of
                        (Some multiplier, Some correction_mass) \<Rightarrow>
                          (lg, map_sum id Some (parent_mass_adduct precursor_mz multiplier correction_mass))
                      | _ \<Rightarrow> (lg, by_charge))
                   else (lg, by_charge))))"

text \<open>The two arithmetic bodies of \<open>derive_precursor_mz_from_parent_mass\<close>.\<close>

definition precursor_mz_adduct :: "mval \<Rightarrow> real \<Rightarrow> real \<Rightarrow> py_error + real" where
  "precursor_mz_adduct parent_mass multiplier correction_mass =
     (case num_of parent_mass of
        Inl e \<Rightarrow> Inl e
      | Inr pm \<Rightarrow> Inr (pm * multiplier + correction_mass))"

definition precursor_mz_charge :: "mass_env \<Rightarrow> mval \<Rightarrow> mval \<Rightarrow> py_error + real" where
  "precursor_mz_charge env parent_mass charge =
     (case num_of charge of
        Inl e \<Rightarrow> Inl e
      | Inr c \<Rightarrow>
          (case num_of parent_mass of
             Inl e \<Rightarrow> Inl e
           | Inr pm \<Rightarrow>
               (let protons_mass = PROTON_MASS env * c;
                    precursor_mass = pm + protons_mass
                in py_truediv precursor_mass \<bar>c\<bar>)))"

text \<open>The source fixes \<open>estimate_from_adduct = True\<close> in the body; the adduct is always tried.\<close>

definition derive_precursor_mz_from_parent_mass ::
  "mass_env \<Rightarrow> spectrum option \<Rightarrow> log_entry list \<times> (py_error + real option)" where
  "derive_precursor_mz_from_parent_mass env spectrum =
     (case spectrum of
        None \<Rightarrow> ([], Inr None)
      | Some s \<Rightarrow>
          (case spectrum_get s ''parent_mass'' of
             None \<Rightarrow> ([(WARNING, ''Missing parent mass to derive precursor mz.'')], Inr None)
           | Some parent_mass \<Rightarrow>
               (case get_multiplier_and_correction_mass_from_adduct env (spectrum_get s ''adduct'') of
                  (Some multiplier, Some correction_mass) \<Rightarrow>
                    ([], map_sum id Some (precursor_mz_adduct parent_mass multiplier correction_mass))
                | _ \<Rightarrow>
                    (let (lg, charge) = get_charge s
                     in if is_valid_charge (Some charge)
                        then (lg, map_sum id Some (precursor_mz_charge env parent_mass charge))
                        else (lg @ [(ERROR, ''Precursor mz could not be derived from parent mass, since charge and adduct were missing'')],
                              Inr None)))))"

section \<open>Annotation validation (require\_annotation.py)\<close>

text \<open>
  The predicates and conversions of \<open>matchms.metadata_utils\<close> are parameters. Each takes
  what \<open>spectrum.get\<close> returns; a conversion returns a value or \<open>None\<close>.
\<close>

record chem_env =
  is_valid_smiles :: "mval option \<Rightarrow> bool"
  is_valid_inchikey :: "mval option \<Rightarrow> bool"
  is_valid_inchi :: "mval option \<Rightarrow> bool"
  convert_smiles_to_inchi :: "mval option \<Rightarrow> mval option"
  convert_inchi_to_inchikey :: "mval option \<Rightarrow> mval option"

text \<open>The slice \<open>x[:14]\<close>: defined on strings, a \<open>TypeError\<close> on \<open>None\<close> and on numbers.\<close>

fun slice14 :: "mval option \<Rightarrow> py_error + string" where
  "slice14 (Some (Str s)) = Inr (take 14 s)"
| "slice14 (Some (Num r)) = Inl TypeError"
| "slice14 None = Inl TypeError"

text \<open>\<open>a[:14] == b[:14]\<close>: the left slice is evaluated first.\<close>

definition prefix14_eq :: "mval option \<Rightarrow> mval option \<Rightarrow> py_error + bool" where
  "prefix14_eq a b =
     (case slice14 a of
        Inl e \<Rightarrow> Inl e
      | Inr x \<Rightarrow> (case slice14 b of Inl e \<Rightarrow> Inl e | Inr y \<Rightarrow> Inr (x = y)))"

text \<open>The five log records of a removal, one per check.\<close>

definition removed_smiles_invalid :: log_entry where
  "removed_smiles_invalid =
     (INFO, ''Removed spectrum since smiles is not valid. Incorrect smiles = %s'')"

definition removed_inchikey_invalid :: log_entry where
  "removed_inchikey_invalid =
     (INFO, ''Removed spectrum since inchikey is not valid. Incorrect inchikey = %s'')"

definition removed_inchi_invalid :: log_entry where
  "removed_inchi_invalid =
     (INFO, ''Removed spectrum since inchi is not valid. Incorrect inchi = %s'')"

definition removed_inchi_mismatch :: log_entry where
  "removed_inchi_mismatch =
     (WARNING, ''Removed spectrum since inchi and inchikey do not match. inchi = %s, inchikey = %s, expected_inchikey = %s'')"

definition removed_smiles_mismatch :: log_entry where
  "removed_smiles_mismatch =
     (WARNING, ''Removed spectrum since smiles does not match the inchikey. inchikey = %s, smiles = %s, expected_inchikey = %s'')"

definition require_annotation ::
  "chem_env \<Rightarrow> spectrum option \<Rightarrow> log_entry list \<times> (py_error + spectrum option)" where
  "require_annotation env spectrum_in =
     (case spectrum_in of
        None \<Rightarrow> ([], Inr None)
      | Some s_in \<Rightarrow>
          (let s = clone s_in;
               smiles = spectrum_get s ''smiles'';
               inchi = spectrum_get s ''inchi'';
               inchikey = spectrum_get s ''inchikey''
           in if \<not> is_valid_smiles env smiles then ([removed_smiles_invalid], Inr None)
              else if \<not> is_valid_inchikey env inchikey then ([removed_inchikey_invalid], Inr None)
              else if \<not> is_valid_inchi env inchi then ([removed_inchi_invalid], Inr None)
              else
                (case prefix14_eq inchikey (convert_inchi_to_inchikey env inchi) of
                   Inl e \<Rightarrow> ([], Inl e)
                 | Inr False \<Rightarrow> ([removed_inchi_mismatch], Inr None)
                 | Inr True \<Rightarrow>
                     (case prefix14_eq inchikey
                             (convert_inchi_to_inchikey env (convert_smiles_to_inchi env smiles)) of
                        Inl e \<Rightarrow> ([], Inl e)
                      | Inr False \<Rightarrow> ([removed_smiles_mismatch], Inr None)
                      | Inr True \<Rightarrow> ([], Inr (Some s))))))"

section \<open>Filter catalog and pipeline (SpectrumProcessor)\<close>

text \<open>
  The module \<open>matchms/SpectrumProcessor.py\<close> is exercised by
  \<open>tests/filtering/test_spectrum_processor.py\<close> only; the definitions of this section and
  of the next follow the specification's sections 3 and 4.1 to 4.3, and the test where it
  fixes a value.
\<close>

datatype pval = PBool bool | PNum real | PStr string | PNone

type_synonym params = "(string \<times> pval) list"

type_synonym filter_fn = "spectrum \<Rightarrow> spectrum option"

text \<open>
  Modelled from the spec: the FilterCatalog entry \<open>(name, callable, ordinal,
  default_params | required_params)\<close>. The ordinal is the position in the catalog.
\<close>

datatype entry_params = Defaults params | Required "string list"

record catalog_entry =
  entry_name :: string
  entry_callable :: "params \<Rightarrow> filter_fn"
  entry_params :: entry_params

text \<open>
  Modelled from the spec: the FilterCatalog, the registered entries in canonical order and the
  named presets, each an ordered sequence of (name, params) steps.
\<close>

record catalog =
  entries :: "catalog_entry list"
  presets :: "(string \<times> (string \<times> params) list) list"

datatype config_error =
    UnknownFilter string
  | MissingParameters string
  | UnknownPreset string
  | NoFiltersConfigured

text \<open>
  Modelled from the spec: a resolved ProcessingStep \<open>(name, params)\<close> together with the
  callable bound to its parameters.
\<close>

record known_step =
  step_name :: string
  step_params :: params
  step_callable :: filter_fn

text \<open>Modelled from the spec: the canonical ordinal of a filter name in the catalog.\<close>

definition ordinal :: "catalog \<Rightarrow> string \<Rightarrow> nat" where
  "ordinal cat name = length (takeWhile (\<lambda>e. entry_name e \<noteq> name) (entries cat))"

text \<open>Modelled from the spec: provided parameters are merged over the stored defaults.\<close>

definition merge_params :: "params \<Rightarrow> params \<Rightarrow> params" where
  "merge_params defaults provided = fold (\<lambda>(k, v). AList.update k v) provided defaults"

text \<open>
  Modelled from the spec: \<open>resolve(name, provided_params)\<close> of the FilterCatalog; it fails
  if the name is unknown, or if defaults are absent and a required key is not supplied.
\<close>

definition resolve :: "catalog \<Rightarrow> string \<Rightarrow> params \<Rightarrow> config_error + known_step" where
  "resolve cat name provided =
     (case find (\<lambda>e. entry_name e = name) (entries cat) of
        None \<Rightarrow> Inl (UnknownFilter name)
      | Some e \<Rightarrow>
          (case entry_params e of
             Defaults d \<Rightarrow>
               Inr \<lparr>step_name = name, step_params = merge_params d provided,
                    step_callable = entry_callable e (merge_params d provided)\<rparr>
           | Required ks \<Rightarrow>
               if list_all (\<lambda>k. map_of provided k \<noteq> None) ks
               then Inr \<lparr>step_name = name, step_params = provided,
                         step_callable = entry_callable e provided\<rparr>
               else Inl (MissingParameters name)))"

text \<open>
  Modelled from the spec: an unregistered (custom) filter, its name and its function of the
  keyword parameters and the spectrum.
\<close>

type_synonym custom_fn = "string \<times> (params \<Rightarrow> filter_fn)"

text \<open>
  Modelled from the spec: the state of the SpectrumProcessor, the resolved steps of known
  filters kept sorted by catalog ordinal, and the append-only sequence of custom bindings.
\<close>

record processor =
  known_steps :: "known_step list"
  custom_filters :: "(custom_fn \<times> params option) list"

text \<open>
  Modelled from the spec: a known step is inserted in ordinal position; a step of the same
  name is replaced by the later-added parameterization.
\<close>

fun insert_step :: "catalog \<Rightarrow> known_step \<Rightarrow> known_step list \<Rightarrow> known_step list" where
  "insert_step cat st [] = [st]"
| "insert_step cat st (x # xs) =
     (if step_name x = step_name st then st # xs
      else if ordinal cat (step_name st) < ordinal cat (step_name x) then st # x # xs
      else x # insert_step cat st xs)"

text \<open>Modelled from the spec: \<open>add_custom_filter(function, params_or_none)\<close>.\<close>

definition add_custom_filter :: "processor \<Rightarrow> custom_fn \<Rightarrow> params option \<Rightarrow> processor" where
  "add_custom_filter p f params_or_none =
     p\<lparr>custom_filters := custom_filters p @ [(f, params_or_none)]\<rparr>"

text \<open>
  Modelled from the spec: the polymorphic step argument of \<open>add_filter\<close>, a bare name, a
  (name, params) pair, or a (function, params) pair.
\<close>

datatype step_arg =
    FilterName string
  | FilterNameParams string params
  | FunctionParams custom_fn params

text \<open>Modelled from the spec: adding a known filter by its resolved step.\<close>

definition add_known_filter :: "catalog \<Rightarrow> processor \<Rightarrow> string \<Rightarrow> params \<Rightarrow> config_error + processor" where
  "add_known_filter cat p name provided =
     (case resolve cat name provided of
        Inl e \<Rightarrow> Inl e
      | Inr st \<Rightarrow> Inr (p\<lparr>known_steps := insert_step cat st (known_steps p)\<rparr>))"

text \<open>Modelled from the spec: \<open>add_filter(step)\<close>.\<close>

fun add_filter :: "catalog \<Rightarrow> processor \<Rightarrow> step_arg \<Rightarrow> config_error + processor" where
  "add_filter cat p (FilterName name) = add_known_filter cat p name []"
| "add_filter cat p (FilterNameParams name ps) = add_known_filter cat p name ps"
| "add_filter cat p (FunctionParams f ps) = Inr (add_custom_filter p f (Some ps))"

text \<open>Modelled from the spec: \<open>construct(preset_name_or_none)\<close>.\<close>

fun seed_steps :: "catalog \<Rightarrow> (string \<times> params) list \<Rightarrow> processor \<Rightarrow> config_error + processor" where
  "seed_steps cat [] p = Inr p"
| "seed_steps cat ((name, ps) # rest) p =
     (case add_known_filter cat p name ps of
        Inl e \<Rightarrow> Inl e
      | Inr p' \<Rightarrow> seed_steps cat rest p')"

definition construct :: "catalog \<Rightarrow> string option \<Rightarrow> config_error + processor" where
  "construct cat preset_name_or_none =
     (case preset_name_or_none of
        None \<Rightarrow> Inr \<lparr>known_steps = [], custom_filters = []\<rparr>
      | Some name \<Rightarrow>
          (case map_of (presets cat) name of
             None \<Rightarrow> Inl (UnknownPreset name)
           | Some steps \<Rightarrow> seed_steps cat steps \<lparr>known_steps = [], custom_filters = []\<rparr>))"

text \<open>Modelled from the spec: \<open>processing_steps\<close>, the (name, params) view of the known steps.\<close>

definition processing_steps :: "processor \<Rightarrow> (string \<times> params) list" where
  "processing_steps p = map (\<lambda>st. (step_name st, step_params st)) (known_steps p)"

text \<open>
  Modelled from the spec: a bound callable of the execution sequence, with its name and
  whether it comes from the catalog or is custom.
\<close>

datatype origin = Known | Custom

record bound_filter =
  callable_name :: string
  callable_origin :: origin
  callable_fn :: filter_fn

definition bind_known :: "known_step \<Rightarrow> bound_filter" where
  "bind_known st = \<lparr>callable_name = step_name st, callable_origin = Known, callable_fn = step_callable st\<rparr>"

definition bind_custom :: "custom_fn \<times> params option \<Rightarrow> bound_filter" where
  "bind_custom c =
     \<lparr>callable_name = fst (fst c), callable_origin = Custom,
      callable_fn = snd (fst c) (case snd c of None \<Rightarrow> [] | Some ps \<Rightarrow> ps)\<rparr>"

text \<open>
  Modelled from the spec: \<open>filters\<close>, all known filters in ordinal order, followed by all
  custom filters in addition order.
\<close>

definition filters :: "processor \<Rightarrow> bound_filter list" where
  "filters p = map bind_known (known_steps p) @ map bind_custom (custom_filters p)"

section \<open>Processing report\<close>

text \<open>
  Modelled from the spec: the ProcessingReport, a global processed counter and three counters
  keyed by filter name (a key appears once it has been incremented).
\<close>

record processing_report =
  counter_number_processed :: nat
  counter_changed_field :: "(string \<times> nat) list"
  counter_added_field :: "(string \<times> nat) list"
  counter_removed_spectrums :: "(string \<times> nat) list"

definition empty_report :: processing_report where
  "empty_report =
     \<lparr>counter_number_processed = 0, counter_changed_field = [],
      counter_added_field = [], counter_removed_spectrums = []\<rparr>"

text \<open>Modelled from the spec: reading a counter (zero if the name is absent) and adding one.\<close>

definition count_of :: "(string \<times> nat) list \<Rightarrow> string \<Rightarrow> nat" where
  "count_of c name = (case map_of c name of None \<Rightarrow> 0 | Some n \<Rightarrow> n)"

definition increment :: "string \<Rightarrow> (string \<times> nat) list \<Rightarrow> (string \<times> nat) list" where
  "increment name c = AList.update name (Suc (count_of c name)) c"

text \<open>
  Modelled from the spec: the metadata keys present in \<open>after\<close> but absent in \<open>before\<close>
  (added), and those present in both with differing values (changed).
\<close>

definition added_keys :: "spectrum \<Rightarrow> spectrum \<Rightarrow> string list" where
  "added_keys before after =
     filter (\<lambda>k. spectrum_get before k = None) (remdups (map fst (metadata after)))"

definition changed_keys :: "spectrum \<Rightarrow> spectrum \<Rightarrow> string list" where
  "changed_keys before after =
     filter (\<lambda>k. spectrum_get before k \<noteq> None \<and> spectrum_get before k \<noteq> spectrum_get after k)
       (remdups (map fst (metadata after)))"

text \<open>
  Modelled from the spec: \<open>add_to_report(before, after, filter_name)\<close>, the removed counter
  and the field diff of section 4.3. The processed counter is left as it is, against the
  words of 4.3: \<open>test_filter_spectrums_report\<close> reads \<open>counter_number_processed == 3\<close> after
  three spectra went through the four filters of the "minimal" preset with changes attributed
  to three filter names, so the counter counts spectra, not reported steps.
\<close>

definition add_to_report ::
  "spectrum \<Rightarrow> spectrum option \<Rightarrow> string \<Rightarrow> processing_report \<Rightarrow> processing_report" where
  "add_to_report before after filter_name r =
     (case after of
        None \<Rightarrow>
          r\<lparr>counter_removed_spectrums := increment filter_name (counter_removed_spectrums r)\<rparr>
      | Some a \<Rightarrow>
          r\<lparr>counter_added_field :=
                fold (\<lambda>k. increment filter_name) (added_keys before a) (counter_added_field r),
              counter_changed_field :=
                fold (\<lambda>k. increment filter_name) (changed_keys before a) (counter_changed_field r)\<rparr>)"

section \<open>Pipeline execution\<close>

text \<open>
  Modelled from the spec: the chain of \<open>process_spectrum\<close>. Each callable is applied to the
  current spectrum, every before/after pair goes to the attached report, and a callable
  returning \<open>None\<close> halts the chain.
\<close>

fun run_filters ::
  "bound_filter list \<Rightarrow> spectrum \<Rightarrow> processing_report option \<Rightarrow> spectrum option \<times> processing_report option" where
  "run_filters [] s r = (Some s, r)"
| "run_filters (f # fs) s r =
     (let out = callable_fn f s;
          r' = map_option (add_to_report s out (callable_name f)) r
      in case out of
           None \<Rightarrow> (None, r')
         | Some s' \<Rightarrow> run_filters fs s' r')"

text \<open>
  Modelled from the spec: counting one processed spectrum in a report. The tests fix the
  count per spectrum (see \<open>add_to_report\<close>).
\<close>

definition count_processed :: "processing_report \<Rightarrow> processing_report" where
  "count_processed r = r\<lparr>counter_number_processed := Suc (counter_number_processed r)\<rparr>"

text \<open>
  Modelled from the spec: \<open>process_spectrum(spectrum)\<close> fails at once with a configuration
  error if \<open>filters\<close> is empty (the test expects a \<open>TypeError\<close> with the message
  "No filters to process"). Otherwise the spectrum is counted once in the attached report and
  the chain runs.
\<close>

definition process_spectrum ::
  "processor \<Rightarrow> spectrum \<Rightarrow> processing_report option
     \<Rightarrow> config_error + (spectrum option \<times> processing_report option)" where
  "process_spectrum p s r =
     (if filters p = [] then Inl NoFiltersConfigured
      else Inr (run_filters (filters p) s (map_option count_processed r)))"

text \<open>
  Modelled from the spec: a configuration of a processor, a preset followed by calls of
  \<open>add_filter\<close> and \<open>add_custom_filter\<close> in any order.
\<close>

datatype config_op = AddFilter step_arg | AddCustomFilter custom_fn "params option"

fun apply_op :: "catalog \<Rightarrow> processor \<Rightarrow> config_op \<Rightarrow> config_error + processor" where
  "apply_op cat p (AddFilter a) = add_filter cat p a"
| "apply_op cat p (AddCustomFilter f ps) = Inr (add_custom_filter p f ps)"

fun apply_ops :: "catalog \<Rightarrow> processor \<Rightarrow> config_op list \<Rightarrow> config_error + processor" where
  "apply_ops cat p [] = Inr p"
| "apply_ops cat p (x # xs) =
     (case apply_op cat p x of
        Inl e \<Rightarrow> Inl e
      | Inr p' \<Rightarrow> apply_ops cat p' xs)"

text \<open>The custom bindings of a configuration, in the order in which they are added.\<close>

fun customs_of :: "config_op list \<Rightarrow> (custom_fn \<times> params option) list" where
  "customs_of [] = []"
| "customs_of (AddFilter (FunctionParams f ps) # xs) = (f, Some ps) # customs_of xs"
| "customs_of (AddFilter a # xs) = customs_of xs"
| "customs_of (AddCustomFilter f ps # xs) = (f, ps) # customs_of xs"

text \<open>
  Modelled from the spec: \<open>process_spectrums(spectra, create_report)\<close> maps
  \<open>process_spectrum\<close> over the input sequence, collects the surviving spectra in input
  order, and accumulates one report.
\<close>

fun process_all ::
  "processor \<Rightarrow> spectrum list \<Rightarrow> processing_report option
     \<Rightarrow> config_error + (spectrum list \<times> processing_report option)" where
  "process_all p [] r = Inr ([], r)"
| "process_all p (s # ss) r =
     (case process_spectrum p s r of
        Inl e \<Rightarrow> Inl e
      | Inr (out, r') \<Rightarrow>
          (case process_all p ss r' of
             Inl e \<Rightarrow> Inl e
           | Inr (outs, r'') \<Rightarrow> Inr ((case out of None \<Rightarrow> outs | Some s' \<Rightarrow> s' # outs), r'')))"

definition process_spectrums ::
  "processor \<Rightarrow> spectrum list \<Rightarrow> bool \<Rightarrow> config_error + (spectrum list \<times> processing_report option)" where
  "process_spectrums p spectra create_report =
     process_all p spectra (if create_report then Some empty_report else None)"

text \<open>The processed counter of a run of a preset with a report, as the tests read it.\<close>

definition processed_by_preset :: "catalog \<Rightarrow> string \<Rightarrow> spectrum list \<Rightarrow> config_error + nat option" where
  "processed_by_preset cat name spectra =
     (case construct cat (Some name) of
        Inl e \<Rightarrow> Inl e
      | Inr p \<Rightarrow>
          (case process_spectrums p spectra True of
             Inl e \<Rightarrow> Inl e
           | Inr (outs, r) \<Rightarrow> Inr (map_option counter_number_processed r)))"

section \<open>Example inputs\<close>

text \<open>
  A small environment for the mass derivations: the identity as canonicalizer, three rows of
  the adduct table, and an interpreter that resolves nothing.
\<close>

definition example_env :: mass_env where
  "example_env =
     \<lparr>PROTON_MASS = 1.00727645199076,
      clean_adduct = (\<lambda>a. a),
      load_known_adducts =
        [(''[M+H]+'', 1, 1.007276), (''[M+2H]2+'', 0.5, 1.007276), (''[M+Na]+'', 1, 22.989218)],
      get_multiplier_and_mass_from_adduct = (\<lambda>a. (None, None))\<rparr>"

definition example_spectrum :: "(string \<times> mval) list \<Rightarrow> spectrum" where
  "example_spectrum md = \<lparr>metadata = md, mz = [100, 150, 200], intensities = [0.7, 0.2, 0.1]\<rparr>"

text \<open>Stand-ins for the structure predicates and conversions, on methane and ethane.\<close>

definition example_chem_env :: chem_env where
  "example_chem_env =
     \<lparr>is_valid_smiles = (\<lambda>v. case v of Some (Str x) \<Rightarrow> x \<noteq> [] | _ \<Rightarrow> False),
      is_valid_inchikey = (\<lambda>v. case v of Some (Str x) \<Rightarrow> length x = 27 | _ \<Rightarrow> False),
      is_valid_inchi = (\<lambda>v. case v of Some (Str x) \<Rightarrow> take 6 x = ''InChI='' | _ \<Rightarrow> False),
      convert_smiles_to_inchi =
        (\<lambda>v. if v = Some (Str ''C'') then Some (Str ''InChI=1S/CH4/h1H4'')
              else if v = Some (Str ''CC'') then Some (Str ''InChI=1S/C2H6/c1-2/h1-2H3'')
              else None),
      convert_inchi_to_inchikey =
        (\<lambda>v. if v = Some (Str ''InChI=1S/CH4/h1H4'') then Some (Str ''VNWKTOKETHGBQD-UHFFFAOYSA-N'')
              else if v = Some (Str ''InChI=1S/C2H6/c1-2/h1-2H3'') then Some (Str ''OTMSDBZUPAUEDD-UHFFFAOYSA-N'')
              else None)\<rparr>"

text \<open>
  A catalog with the four filter names of the "minimal" preset. The filters themselves are
  outside the sources; each stand-in keeps the spectrum as it is.
\<close>

definition keep_filter :: "string \<Rightarrow> catalog_entry" where
  "keep_filter name =
     \<lparr>entry_name = name, entry_callable = (\<lambda>ps s. Some s), entry_params = Defaults []\<rparr>"

definition example_catalog :: catalog where
  "example_catalog =
     \<lparr>entries = [keep_filter ''make_charge_int'', keep_filter ''interpret_pepmass'',
                 keep_filter ''derive_ionmode'', keep_filter ''correct_charge''],
      presets = [(''minimal'', [(''make_charge_int'', []), (''interpret_pepmass'', []),
                                (''derive_ionmode'', []), (''correct_charge'', [])])]\<rparr>"

text \<open>The three spectra of the test fixture and the custom filter of the tests.\<close>

definition example_spectrums :: "spectrum list" where
  "example_spectrums =
     [\<lparr>metadata = [(''charge'', Str ''+1''), (''pepmass'', Num 100)], mz = [], intensities = []\<rparr>,
      \<lparr>metadata = [(''charge'', Str ''-1''), (''pepmass'', Num 102)], mz = [], intensities = []\<rparr>,
      \<lparr>metadata = [(''charge'', Num (- 1)), (''pepmass'', Num 104)], mz = [], intensities = []\<rparr>]"

definition nonsense_inchikey :: custom_fn where
  "nonsense_inchikey =
     (''nonsense_inchikey'', (\<lambda>ps s. Some (spectrum_set (clone s) ''inchikey'' (Str ''NONSENSE''))))"

definition nonsense_smiles :: custom_fn where
  "nonsense_smiles =
     (''nonsense_smiles'', (\<lambda>ps s. Some (spectrum_set (clone s) ''smiles'' (Str ''test''))))"

section \<open>Properties of the mass derivation\<close>

lemma spectrum_get_set:
  "spectrum_get (spectrum_set s k v) k' = (if k' = k then Some v else spectrum_get s k')"
  by (simp add: spectrum_get_def spectrum_set_def update_conv')

lemma get_charge_cong:
  assumes "spectrum_get s' ''charge'' = spectrum_get s ''charge''"
    and "spectrum_get s' ''ionmode'' = spectrum_get s ''ionmode''"
  shows "get_charge s' = get_charge s"
  using assms by (simp add: get_charge_def)

lemma get_charge_set_other:
  "k \<noteq> ''charge'' \<Longrightarrow> k \<noteq> ''ionmode'' \<Longrightarrow> get_charge (spectrum_set s k v) = get_charge s"
  by (simp add: get_charge_def spectrum_get_set)

text \<open>
  C10. Given \<open>None\<close> as the input spectrum, \<open>derive_parent_mass_from_precursor_mz\<close>,
  \<open>derive_precursor_mz_from_parent_mass\<close> and \<open>require_annotation\<close> each return \<open>None\<close>
  at once: nothing is raised, nothing is logged, and the result does not depend on any
  collaborator or setting.
\<close>

theorem none_input_returns_none:
  "derive_parent_mass_from_precursor_mz env None estimate_from_adduct = ([], Inr None)
   \<and> derive_precursor_mz_from_parent_mass env None = ([], Inr None)
   \<and> require_annotation cenv None = ([], Inr None)"
  by (simp add: derive_parent_mass_from_precursor_mz_def
      derive_precursor_mz_from_parent_mass_def require_annotation_def)

text \<open>
  C5. The effective charge is the spectrum's charge field if it is present and nonzero;
  otherwise \<open>+1\<close> if the ionmode field equals "positive", otherwise \<open>-1\<close> if it equals
  "negative", otherwise \<open>0\<close>.
\<close>

theorem effective_charge:
  "(\<forall>c. spectrum_get s ''charge'' = Some c \<and> c \<noteq> Num 0 \<longrightarrow> snd (get_charge s) = c)
   \<and> (spectrum_get s ''charge'' = None \<or> spectrum_get s ''charge'' = Some (Num 0) \<longrightarrow>
        snd (get_charge s) =
          (if spectrum_get s ''ionmode'' = Some (Str ''positive'') then Num 1
           else if spectrum_get s ''ionmode'' = Some (Str ''negative'') then Num (- 1)
           else Num 0))"
  by (auto simp: get_charge_def is_valid_charge_def)

theorem effective_charge_witness:
  "snd (get_charge \<lparr>metadata = [(''charge'', Num 2), (''ionmode'', Str ''negative'')], mz = [], intensities = []\<rparr>) = Num 2
   \<and> snd (get_charge \<lparr>metadata = [(''charge'', Num 0), (''ionmode'', Str ''positive'')], mz = [], intensities = []\<rparr>) = Num 1
   \<and> snd (get_charge \<lparr>metadata = [(''ionmode'', Str ''negative'')], mz = [], intensities = []\<rparr>) = Num (- 1)
   \<and> snd (get_charge \<lparr>metadata = [(''ionmode'', Str ''n/a'')], mz = [], intensities = []\<rparr>) = Num 0"
  using effective_charge [of "\<lparr>metadata = [(''charge'', Num 2), (''ionmode'', Str ''negative'')], mz = [], intensities = []\<rparr>"]
    effective_charge [of "\<lparr>metadata = [(''charge'', Num 0), (''ionmode'', Str ''positive'')], mz = [], intensities = []\<rparr>"]
    effective_charge [of "\<lparr>metadata = [(''ionmode'', Str ''negative'')], mz = [], intensities = []\<rparr>"]
    effective_charge [of "\<lparr>metadata = [(''ionmode'', Str ''n/a'')], mz = [], intensities = []\<rparr>"]
  by (simp add: spectrum_get_def)

text \<open>
  On a table miss the helper interprets the literal string "adduct": its answer is the same
  for every adduct that the table does not hold.
\<close>

lemma table_miss_ignores_adduct:
  assumes "\<And>a. clean_adduct env adduct = Some (Str a) \<Longrightarrow> map_of (load_known_adducts env) a = None"
  shows "get_multiplier_and_correction_mass_from_adduct env adduct
           = get_multiplier_and_mass_from_adduct env ''adduct''"
  using assms
  by (auto simp: get_multiplier_and_correction_mass_from_adduct_def split: option.splits mval.splits)

lemma example_hit:
  "get_multiplier_and_correction_mass_from_adduct example_env (Some (Str ''[M+2H]2+'')) = (Some 0.5, Some 1.007276)"
  by (simp add: get_multiplier_and_correction_mass_from_adduct_def example_env_def)

lemma example_miss:
  "get_multiplier_and_correction_mass_from_adduct example_env None = (None, None)"
  "get_multiplier_and_correction_mass_from_adduct example_env (Some (Str ''[M+K]+'')) = (None, None)"
  by (simp_all add: get_multiplier_and_correction_mass_from_adduct_def example_env_def)

lemma derive_parent_mass_adduct_hit:
  assumes "spectrum_get s ''precursor_mz'' = Some (Num x)"
    and "get_multiplier_and_correction_mass_from_adduct env (spectrum_get s ''adduct'') = (Some m, Some c)"
    and "m \<noteq> 0"
  shows "snd (derive_parent_mass_from_precursor_mz env (Some s) True) = Inr (Some ((x - c) / m))"
  using assms
  by (simp add: derive_parent_mass_from_precursor_mz_def parent_mass_adduct_def py_truediv_def
      split: prod.splits)

lemma derive_precursor_mz_adduct_hit:
  assumes "spectrum_get s ''parent_mass'' = Some (Num pm)"
    and "get_multiplier_and_correction_mass_from_adduct env (spectrum_get s ''adduct'') = (Some m, Some c)"
  shows "snd (derive_precursor_mz_from_parent_mass env (Some s)) = Inr (Some (pm * m + c))"
  using assms
  by (simp add: derive_precursor_mz_from_parent_mass_def precursor_mz_adduct_def)

lemma derive_parent_mass_by_charge:
  assumes "spectrum_get s ''precursor_mz'' = Some (Num x)"
    and "get_multiplier_and_correction_mass_from_adduct env (spectrum_get s ''adduct'') = (a, b)"
    and "\<not> estimate_from_adduct \<or> a = None \<or> b = None"
    and "get_charge s = (lg, Num ch)"
  shows "snd (derive_parent_mass_from_precursor_mz env (Some s) estimate_from_adduct) =
           Inr (if ch \<noteq> 0 then Some (x * \<bar>ch\<bar> - PROTON_MASS env * ch) else None)"
  using assms
  by (auto simp: derive_parent_mass_from_precursor_mz_def parent_mass_charge_def
      is_valid_charge_def Let_def split: option.splits)

lemma derive_precursor_mz_by_charge:
  assumes "spectrum_get s ''parent_mass'' = Some (Num pm)"
    and "get_multiplier_and_correction_mass_from_adduct env (spectrum_get s ''adduct'') = (a, b)"
    and "a = None \<or> b = None"
    and "get_charge s = (lg, Num ch)"
  shows "snd (derive_precursor_mz_from_parent_mass env (Some s)) =
           Inr (if ch \<noteq> 0 then Some ((pm + PROTON_MASS env * ch) / \<bar>ch\<bar>) else None)"
  using assms
  by (auto simp: derive_precursor_mz_from_parent_mass_def precursor_mz_charge_def
      py_truediv_def is_valid_charge_def Let_def split: option.splits)

text \<open>
  C3. With a present (numeric) precursor m/z, \<open>estimate_from_adduct\<close> set and an adduct
  that resolves to a multiplier and a correction mass, the parent mass is
  \<open>(precursor_mz - correction_mass) / multiplier\<close> (a zero multiplier is a division by
  zero), and the charge path plays no role: the result is the same for every spectrum with
  the same precursor m/z and adduct, whatever its charge and ionmode.
\<close>

theorem adduct_path_takes_precedence:
  assumes "spectrum_get s ''precursor_mz'' = Some (Num p)"
    and "get_multiplier_and_correction_mass_from_adduct env (spectrum_get s ''adduct'') = (Some m, Some c)"
  shows "snd (derive_parent_mass_from_precursor_mz env (Some s) True) =
           (if m = 0 then Inl ZeroDivisionError else Inr (Some ((p - c) / m)))
         \<and> (\<forall>s'. spectrum_get s' ''precursor_mz'' = spectrum_get s ''precursor_mz''
                \<and> spectrum_get s' ''adduct'' = spectrum_get s ''adduct''
              \<longrightarrow> snd (derive_parent_mass_from_precursor_mz env (Some s') True)
                  = snd (derive_parent_mass_from_precursor_mz env (Some s) True))"
  using assms
  by (simp add: derive_parent_mass_from_precursor_mz_def parent_mass_adduct_def py_truediv_def
      split: prod.splits)

theorem adduct_path_takes_precedence_witness:
  "snd (derive_parent_mass_from_precursor_mz example_env
          (Some (example_spectrum [(''precursor_mz'', Num 201), (''adduct'', Str ''[M+2H]2+''), (''charge'', Num 2)])) True)
     = Inr (Some ((201 - 1.007276) / 0.5))
   \<and> snd (derive_parent_mass_from_precursor_mz example_env
          (Some (example_spectrum [(''precursor_mz'', Num 201), (''adduct'', Str ''[M+2H]2+''), (''ionmode'', Str ''negative'')])) True)
     = snd (derive_parent_mass_from_precursor_mz example_env
          (Some (example_spectrum [(''precursor_mz'', Num 201), (''adduct'', Str ''[M+2H]2+''), (''charge'', Num 2)])) True)"
proof -
  let ?s = "example_spectrum [(''precursor_mz'', Num 201), (''adduct'', Str ''[M+2H]2+''), (''charge'', Num 2)]"
  let ?s' = "example_spectrum [(''precursor_mz'', Num 201), (''adduct'', Str ''[M+2H]2+''), (''ionmode'', Str ''negative'')]"
  have p: "spectrum_get ?s ''precursor_mz'' = Some (Num 201)"
    by (simp add: spectrum_get_def example_spectrum_def)
  have a: "spectrum_get ?s ''adduct'' = Some (Str ''[M+2H]2+'')"
    by (simp add: spectrum_get_def example_spectrum_def)
  have h: "get_multiplier_and_correction_mass_from_adduct example_env (spectrum_get ?s ''adduct'')
             = (Some 0.5, Some 1.007276)"
    using example_hit a by simp
  have same: "spectrum_get ?s' ''precursor_mz'' = spectrum_get ?s ''precursor_mz''
       \<and> spectrum_get ?s' ''adduct'' = spectrum_get ?s ''adduct''"
    by (simp add: spectrum_get_def example_spectrum_def)
  from adduct_path_takes_precedence [OF p h] same show ?thesis
    by simp
qed

text \<open>
  C4. With a present (numeric) precursor m/z, when the adduct path does not apply
  (\<open>estimate_from_adduct\<close> unset, or the adduct yields no multiplier or no correction mass),
  the parent mass is \<open>precursor_mz * |charge| - charge * PROTON_MASS\<close> when the effective
  charge is nonzero, and \<open>None\<close> when it is zero.
\<close>

theorem charge_path:
  assumes "spectrum_get s ''precursor_mz'' = Some (Num p)"
    and "\<not> estimate_from_adduct
         \<or> fst (get_multiplier_and_correction_mass_from_adduct env (spectrum_get s ''adduct'')) = None
         \<or> snd (get_multiplier_and_correction_mass_from_adduct env (spectrum_get s ''adduct'')) = None"
    and "snd (get_charge s) = Num ch"
  shows "snd (derive_parent_mass_from_precursor_mz env (Some s) estimate_from_adduct) =
           Inr (if ch \<noteq> 0 then Some (p * \<bar>ch\<bar> - ch * PROTON_MASS env) else None)"
proof -
  obtain lg where gc: "get_charge s = (lg, Num ch)"
    using assms(3) by (cases "get_charge s") simp
  obtain a b where g: "get_multiplier_and_correction_mass_from_adduct env (spectrum_get s ''adduct'') = (a, b)"
    by fastforce
  have miss: "\<not> estimate_from_adduct \<or> a = None \<or> b = None"
    using assms(2) g by simp
  show ?thesis
    using assms(1) gc g miss
    by (auto simp: derive_parent_mass_from_precursor_mz_def parent_mass_charge_def
        is_valid_charge_def Let_def mult.commute split: option.splits)
qed

theorem charge_path_witness:
  "snd (derive_parent_mass_from_precursor_mz example_env
          (Some (example_spectrum [(''precursor_mz'', Num 201), (''adduct'', Str ''[M+2H]2+''), (''charge'', Num (- 2))])) False)
     = Inr (Some (201 * 2 + 2 * 1.00727645199076))
   \<and> snd (derive_parent_mass_from_precursor_mz example_env
          (Some (example_spectrum [(''precursor_mz'', Num 201), (''adduct'', Str ''[M+K]+''), (''ionmode'', Str ''positive'')])) True)
     = Inr (Some (201 - 1.00727645199076))
   \<and> snd (derive_parent_mass_from_precursor_mz example_env
          (Some (example_spectrum [(''precursor_mz'', Num 201), (''charge'', Num 0)])) True)
     = Inr None"
proof -
  let ?s1 = "example_spectrum [(''precursor_mz'', Num 201), (''adduct'', Str ''[M+2H]2+''), (''charge'', Num (- 2))]"
  let ?s2 = "example_spectrum [(''precursor_mz'', Num 201), (''adduct'', Str ''[M+K]+''), (''ionmode'', Str ''positive'')]"
  let ?s3 = "example_spectrum [(''precursor_mz'', Num 201), (''charge'', Num 0)]"
  have p1: "spectrum_get ?s1 ''precursor_mz'' = Some (Num 201)"
    and p2: "spectrum_get ?s2 ''precursor_mz'' = Some (Num 201)"
    and p3: "spectrum_get ?s3 ''precursor_mz'' = Some (Num 201)"
    by (simp_all add: spectrum_get_def example_spectrum_def)
  have c1: "snd (get_charge ?s1) = Num (- 2)"
    and c2: "snd (get_charge ?s2) = Num 1"
    and c3: "snd (get_charge ?s3) = Num 0"
    by (simp_all add: get_charge_def is_valid_charge_def spectrum_get_def example_spectrum_def)
  have m2: "fst (get_multiplier_and_correction_mass_from_adduct example_env (spectrum_get ?s2 ''adduct'')) = None"
    using example_miss(2) by (simp add: spectrum_get_def example_spectrum_def)
  have m3: "fst (get_multiplier_and_correction_mass_from_adduct example_env (spectrum_get ?s3 ''adduct'')) = None"
    using example_miss(1) by (simp add: spectrum_get_def example_spectrum_def)
  have r1: "snd (derive_parent_mass_from_precursor_mz example_env (Some ?s1) False)
      = Inr (Some (201 * 2 + 2 * 1.00727645199076))"
    using charge_path [OF p1 _ c1, of False example_env] by (simp add: example_env_def)
  have r2: "snd (derive_parent_mass_from_precursor_mz example_env (Some ?s2) True)
      = Inr (Some (201 - 1.00727645199076))"
    using charge_path [OF p2 _ c2, of True example_env] m2 by (simp add: example_env_def)
  have r3: "snd (derive_parent_mass_from_precursor_mz example_env (Some ?s3) True) = Inr None"
    using charge_path [OF p3 _ c3, of True example_env] m3 by simp
  from r1 r2 r3 show ?thesis by simp
qed

text \<open>
  A charge stored as a string (as in the test fixture, before \<open>make_charge_int\<close>) is
  "valid" and makes the charge path raise.
\<close>

lemma string_charge_raises:
  assumes "spectrum_get s ''precursor_mz'' = Some (Num p)"
    and "spectrum_get s ''charge'' = Some (Str c)"
  shows "snd (derive_parent_mass_from_precursor_mz env (Some s) False) = Inl TypeError"
  using assms
  by (simp add: derive_parent_mass_from_precursor_mz_def get_charge_def is_valid_charge_def
      parent_mass_charge_def)

text \<open>
  C6. \<open>derive_precursor_mz_from_parent_mass\<close> returns \<open>None\<close> if the parent mass is
  missing; otherwise \<open>parent_mass * multiplier + correction_mass\<close> if the adduct resolves;
  otherwise \<open>(parent_mass + charge * PROTON_MASS) / |charge|\<close> if the effective charge is
  nonzero; otherwise \<open>None\<close>. Nothing is raised on these paths (parent mass and charge
  numeric).
\<close>

theorem derive_precursor_mz_cases:
  "(spectrum_get s ''parent_mass'' = None \<longrightarrow>
      snd (derive_precursor_mz_from_parent_mass env (Some s)) = Inr None)
   \<and> (\<forall>pm m c. spectrum_get s ''parent_mass'' = Some (Num pm)
        \<and> get_multiplier_and_correction_mass_from_adduct env (spectrum_get s ''adduct'') = (Some m, Some c)
        \<longrightarrow> snd (derive_precursor_mz_from_parent_mass env (Some s)) = Inr (Some (pm * m + c)))
   \<and> (\<forall>pm ch. spectrum_get s ''parent_mass'' = Some (Num pm)
        \<and> (fst (get_multiplier_and_correction_mass_from_adduct env (spectrum_get s ''adduct'')) = None
           \<or> snd (get_multiplier_and_correction_mass_from_adduct env (spectrum_get s ''adduct'')) = None)
        \<and> snd (get_charge s) = Num ch
        \<longrightarrow> snd (derive_precursor_mz_from_parent_mass env (Some s)) =
              Inr (if ch \<noteq> 0 then Some ((pm + ch * PROTON_MASS env) / \<bar>ch\<bar>) else None))"
  by (auto simp: derive_precursor_mz_from_parent_mass_def precursor_mz_adduct_def
      precursor_mz_charge_def py_truediv_def is_valid_charge_def Let_def mult.commute
      split: prod.splits option.splits)

theorem derive_precursor_mz_cases_witness:
  "snd (derive_precursor_mz_from_parent_mass example_env
          (Some (example_spectrum [(''adduct'', Str ''[M+2H]2+''), (''charge'', Num 2)]))) = Inr None
   \<and> snd (derive_precursor_mz_from_parent_mass example_env
          (Some (example_spectrum [(''parent_mass'', Num 400), (''adduct'', Str ''[M+2H]2+''), (''charge'', Num 2)])))
       = Inr (Some (400 * 0.5 + 1.007276))
   \<and> snd (derive_precursor_mz_from_parent_mass example_env
          (Some (example_spectrum [(''parent_mass'', Num 400), (''charge'', Num (- 2))])))
       = Inr (Some ((400 - 2 * 1.00727645199076) / 2))
   \<and> snd (derive_precursor_mz_from_parent_mass example_env
          (Some (example_spectrum [(''parent_mass'', Num 400)]))) = Inr None"
proof -
  let ?s0 = "example_spectrum [(''adduct'', Str ''[M+2H]2+''), (''charge'', Num 2)]"
  let ?s1 = "example_spectrum [(''parent_mass'', Num 400), (''adduct'', Str ''[M+2H]2+''), (''charge'', Num 2)]"
  let ?s2 = "example_spectrum [(''parent_mass'', Num 400), (''charge'', Num (- 2))]"
  let ?s3 = "example_spectrum [(''parent_mass'', Num 400)]"
  have r0: "snd (derive_precursor_mz_from_parent_mass example_env (Some ?s0)) = Inr None"
    using derive_precursor_mz_cases [of ?s0 example_env]
    by (simp add: spectrum_get_def example_spectrum_def)
  have h1: "spectrum_get ?s1 ''parent_mass'' = Some (Num 400)
      \<and> get_multiplier_and_correction_mass_from_adduct example_env (spectrum_get ?s1 ''adduct'')
          = (Some 0.5, Some 1.007276)"
    using example_hit by (simp add: spectrum_get_def example_spectrum_def)
  have r1: "snd (derive_precursor_mz_from_parent_mass example_env (Some ?s1)) = Inr (Some (400 * 0.5 + 1.007276))"
    using derive_precursor_mz_cases [of ?s1 example_env] h1 by blast
  have h2: "spectrum_get ?s2 ''parent_mass'' = Some (Num 400)
      \<and> (fst (get_multiplier_and_correction_mass_from_adduct example_env (spectrum_get ?s2 ''adduct'')) = None
         \<or> snd (get_multiplier_and_correction_mass_from_adduct example_env (spectrum_get ?s2 ''adduct'')) = None)
      \<and> snd (get_charge ?s2) = Num (- 2)"
    using example_miss(1)
    by (simp add: spectrum_get_def example_spectrum_def get_charge_def is_valid_charge_def)
  have "snd (derive_precursor_mz_from_parent_mass example_env (Some ?s2)) =
      Inr (if (- 2::real) \<noteq> 0 then Some ((400 + (- 2) * PROTON_MASS example_env) / \<bar>- 2\<bar>) else None)"
    using derive_precursor_mz_cases [of ?s2 example_env] h2 by blast
  then have r2: "snd (derive_precursor_mz_from_parent_mass example_env (Some ?s2)) =
      Inr (Some ((400 - 2 * 1.00727645199076) / 2))"
    by (simp add: example_env_def)
  have h3: "spectrum_get ?s3 ''parent_mass'' = Some (Num 400)
      \<and> (fst (get_multiplier_and_correction_mass_from_adduct example_env (spectrum_get ?s3 ''adduct'')) = None
         \<or> snd (get_multiplier_and_correction_mass_from_adduct example_env (spectrum_get ?s3 ''adduct'')) = None)
      \<and> snd (get_charge ?s3) = Num 0"
    using example_miss(1)
    by (simp add: spectrum_get_def example_spectrum_def get_charge_def is_valid_charge_def)
  have "snd (derive_precursor_mz_from_parent_mass example_env (Some ?s3)) =
      Inr (if (0::real) \<noteq> 0 then Some ((400 + 0 * PROTON_MASS example_env) / \<bar>0\<bar>) else None)"
    using derive_precursor_mz_cases [of ?s3 example_env] h3 by blast
  then have r3: "snd (derive_precursor_mz_from_parent_mass example_env (Some ?s3)) = Inr None"
    by simp
  from r0 r1 r2 r3 show ?thesis by simp
qed

text \<open>
  C1. Round trip. For a spectrum with a (numeric) precursor m/z, the parent mass is derived,
  and from every spectrum that stores this parent mass and has the same adduct, charge and
  ionmode fields (whatever else it holds, a precursor m/z or none) the precursor m/z derived
  back is the original value. Both directions resolve the same parameters: the adduct
  (nonzero multiplier) with \<open>estimate_from_adduct\<close> set, as the reverse direction always has
  it, or a nonzero effective charge when the adduct does not resolve.
\<close>

theorem round_trip:
  assumes pmz: "spectrum_get s ''precursor_mz'' = Some (Num x)"
    and same: "(estimate_from_adduct
          \<and> (\<exists>m c. get_multiplier_and_correction_mass_from_adduct env (spectrum_get s ''adduct'') = (Some m, Some c)
                  \<and> m \<noteq> 0))
        \<or> ((fst (get_multiplier_and_correction_mass_from_adduct env (spectrum_get s ''adduct'')) = None
             \<or> snd (get_multiplier_and_correction_mass_from_adduct env (spectrum_get s ''adduct'')) = None)
            \<and> (\<exists>ch. snd (get_charge s) = Num ch \<and> ch \<noteq> 0))"
  shows "\<exists>pm. snd (derive_parent_mass_from_precursor_mz env (Some s) estimate_from_adduct) = Inr (Some pm)
           \<and> (\<forall>s'. spectrum_get s' ''parent_mass'' = Some (Num pm)
                  \<and> spectrum_get s' ''adduct'' = spectrum_get s ''adduct''
                  \<and> spectrum_get s' ''charge'' = spectrum_get s ''charge''
                  \<and> spectrum_get s' ''ionmode'' = spectrum_get s ''ionmode''
                \<longrightarrow> snd (derive_precursor_mz_from_parent_mass env (Some s')) = Inr (Some x))"
proof -
  consider (adduct) m c where "estimate_from_adduct"
      "get_multiplier_and_correction_mass_from_adduct env (spectrum_get s ''adduct'') = (Some m, Some c)"
      "m \<noteq> 0"
    | (charge) ch where
      "fst (get_multiplier_and_correction_mass_from_adduct env (spectrum_get s ''adduct'')) = None
        \<or> snd (get_multiplier_and_correction_mass_from_adduct env (spectrum_get s ''adduct'')) = None"
      "snd (get_charge s) = Num ch" "ch \<noteq> 0"
    using same by blast
  then show ?thesis
  proof cases
    case adduct
    note est = adduct(1) and hit = adduct(2) and m = adduct(3)
    let ?pm = "(x - c) / m"
    have fwd: "snd (derive_parent_mass_from_precursor_mz env (Some s) estimate_from_adduct) = Inr (Some ?pm)"
      using derive_parent_mass_adduct_hit [OF pmz hit m] est by simp
    have bwd: "snd (derive_precursor_mz_from_parent_mass env (Some t)) = Inr (Some x)"
      if stored: "spectrum_get t ''parent_mass'' = Some (Num ?pm)"
        and ad: "spectrum_get t ''adduct'' = spectrum_get s ''adduct''" for t
    proof -
      have hit2: "get_multiplier_and_correction_mass_from_adduct env (spectrum_get t ''adduct'') = (Some m, Some c)"
        using hit ad by simp
      have "snd (derive_precursor_mz_from_parent_mass env (Some t)) = Inr (Some (?pm * m + c))"
        by (rule derive_precursor_mz_adduct_hit [OF stored hit2])
      moreover have "?pm * m + c = x"
        using m by simp
      ultimately show ?thesis by simp
    qed
    show ?thesis
      using fwd bwd by blast
  next
    case charge
    note miss = charge(1) and ch = charge(2,3)
    obtain lg where gc: "get_charge s = (lg, Num ch)"
      using ch(1) by (cases "get_charge s") simp
    obtain a b where g: "get_multiplier_and_correction_mass_from_adduct env (spectrum_get s ''adduct'') = (a, b)"
      by fastforce
    have ab: "a = None \<or> b = None"
      using miss g by simp
    let ?pm = "x * \<bar>ch\<bar> - PROTON_MASS env * ch"
    have fwd: "snd (derive_parent_mass_from_precursor_mz env (Some s) estimate_from_adduct) = Inr (Some ?pm)"
      using derive_parent_mass_by_charge [OF pmz g _ gc, of estimate_from_adduct] ab ch(2) by simp
    have bwd: "snd (derive_precursor_mz_from_parent_mass env (Some t)) = Inr (Some x)"
      if stored: "spectrum_get t ''parent_mass'' = Some (Num ?pm)"
        and ad: "spectrum_get t ''adduct'' = spectrum_get s ''adduct''"
        and cg: "spectrum_get t ''charge'' = spectrum_get s ''charge''"
        and im: "spectrum_get t ''ionmode'' = spectrum_get s ''ionmode''" for t
    proof -
      have g2: "get_multiplier_and_correction_mass_from_adduct env (spectrum_get t ''adduct'') = (a, b)"
        using g ad by simp
      have gc2: "get_charge t = (lg, Num ch)"
        using gc get_charge_cong [OF cg im] by simp
      have "snd (derive_precursor_mz_from_parent_mass env (Some t)) =
          Inr (if ch \<noteq> 0 then Some ((?pm + PROTON_MASS env * ch) / \<bar>ch\<bar>) else None)"
        by (rule derive_precursor_mz_by_charge [OF stored g2 ab gc2])
      moreover have "(?pm + PROTON_MASS env * ch) / \<bar>ch\<bar> = x"
        using ch(2) by simp
      ultimately show ?thesis
        using ch(2) by simp
    qed
    show ?thesis
      using fwd bwd by blast
  qed
qed

theorem round_trip_witness:
  "snd (derive_parent_mass_from_precursor_mz example_env
          (Some (example_spectrum [(''precursor_mz'', Num 201), (''adduct'', Str ''[M+2H]2+''), (''charge'', Num 2)])) True)
     = Inr (Some ((201 - 1.007276) / 0.5))
   \<and> snd (derive_precursor_mz_from_parent_mass example_env
          (Some (example_spectrum [(''parent_mass'', Num ((201 - 1.007276) / 0.5)), (''adduct'', Str ''[M+2H]2+''),
                                   (''charge'', Num 2)])))
     = Inr (Some 201)
   \<and> snd (derive_parent_mass_from_precursor_mz example_env
          (Some (example_spectrum [(''precursor_mz'', Num 201), (''ionmode'', Str ''negative'')])) False)
     = Inr (Some (201 + 1.00727645199076))
   \<and> snd (derive_precursor_mz_from_parent_mass example_env
          (Some (example_spectrum [(''parent_mass'', Num (201 + 1.00727645199076)), (''ionmode'', Str ''negative'')])))
     = Inr (Some 201)"
proof -
  let ?s1 = "example_spectrum [(''precursor_mz'', Num 201), (''adduct'', Str ''[M+2H]2+''), (''charge'', Num 2)]"
  let ?t1 = "example_spectrum [(''parent_mass'', Num ((201 - 1.007276) / 0.5)), (''adduct'', Str ''[M+2H]2+''),
                                   (''charge'', Num 2)]"
  let ?s2 = "example_spectrum [(''precursor_mz'', Num 201), (''ionmode'', Str ''negative'')]"
  let ?t2 = "example_spectrum [(''parent_mass'', Num (201 + 1.00727645199076)), (''ionmode'', Str ''negative'')]"
  have p1: "spectrum_get ?s1 ''precursor_mz'' = Some (Num 201)"
    and p2: "spectrum_get ?s2 ''precursor_mz'' = Some (Num 201)"
    by (simp_all add: spectrum_get_def example_spectrum_def)
  have hit1: "get_multiplier_and_correction_mass_from_adduct example_env (spectrum_get ?s1 ''adduct'')
      = (Some 0.5, Some 1.007276)"
    using example_hit by (simp add: spectrum_get_def example_spectrum_def)
  then have "get_multiplier_and_correction_mass_from_adduct example_env (spectrum_get ?s1 ''adduct'')
      = (Some 0.5, Some 1.007276) \<and> (0.5::real) \<noteq> 0"
    by simp
  then have h1: "(True
          \<and> (\<exists>m c. get_multiplier_and_correction_mass_from_adduct example_env (spectrum_get ?s1 ''adduct'') = (Some m, Some c)
                  \<and> m \<noteq> 0))
        \<or> ((fst (get_multiplier_and_correction_mass_from_adduct example_env (spectrum_get ?s1 ''adduct'')) = None
             \<or> snd (get_multiplier_and_correction_mass_from_adduct example_env (spectrum_get ?s1 ''adduct'')) = None)
            \<and> (\<exists>ch. snd (get_charge ?s1) = Num ch \<and> ch \<noteq> 0))"
    by blast
  have miss2: "get_multiplier_and_correction_mass_from_adduct example_env (spectrum_get ?s2 ''adduct'') = (None, None)"
    using example_miss(1) by (simp add: spectrum_get_def example_spectrum_def)
  have gc2: "get_charge ?s2 = ([(INFO, ''Missing charge entry, but negative ionmode detected. Consider prior run of `correct_charge()` filter.'')], Num (- 1))"
    by (simp add: spectrum_get_def example_spectrum_def get_charge_def is_valid_charge_def)
  have "fst (get_multiplier_and_correction_mass_from_adduct example_env (spectrum_get ?s2 ''adduct'')) = None
      \<and> snd (get_charge ?s2) = Num (- 1) \<and> (- 1::real) \<noteq> 0"
    using miss2 gc2 by simp
  then have h2: "(False
          \<and> (\<exists>m c. get_multiplier_and_correction_mass_from_adduct example_env (spectrum_get ?s2 ''adduct'') = (Some m, Some c)
                  \<and> m \<noteq> 0))
        \<or> ((fst (get_multiplier_and_correction_mass_from_adduct example_env (spectrum_get ?s2 ''adduct'')) = None
             \<or> snd (get_multiplier_and_correction_mass_from_adduct example_env (spectrum_get ?s2 ''adduct'')) = None)
            \<and> (\<exists>ch. snd (get_charge ?s2) = Num ch \<and> ch \<noteq> 0))"
    by blast
  have f1: "snd (derive_parent_mass_from_precursor_mz example_env (Some ?s1) True)
      = Inr (Some ((201 - 1.007276) / 0.5))"
    by (rule derive_parent_mass_adduct_hit [OF p1 hit1]) simp
  have f2: "snd (derive_parent_mass_from_precursor_mz example_env (Some ?s2) False)
      = Inr (Some (201 + 1.00727645199076))"
    using derive_parent_mass_by_charge [OF p2 miss2 _ gc2, of False] by (simp add: example_env_def)
  have same1: "spectrum_get ?t1 ''parent_mass'' = Some (Num ((201 - 1.007276) / 0.5))
      \<and> spectrum_get ?t1 ''adduct'' = spectrum_get ?s1 ''adduct''
      \<and> spectrum_get ?t1 ''charge'' = spectrum_get ?s1 ''charge''
      \<and> spectrum_get ?t1 ''ionmode'' = spectrum_get ?s1 ''ionmode''"
    by (simp add: spectrum_get_def example_spectrum_def)
  have same2: "spectrum_get ?t2 ''parent_mass'' = Some (Num (201 + 1.00727645199076))
      \<and> spectrum_get ?t2 ''adduct'' = spectrum_get ?s2 ''adduct''
      \<and> spectrum_get ?t2 ''charge'' = spectrum_get ?s2 ''charge''
      \<and> spectrum_get ?t2 ''ionmode'' = spectrum_get ?s2 ''ionmode''"
    by (simp add: spectrum_get_def example_spectrum_def)
  from round_trip [OF p1 h1] f1 same1
  have b1: "snd (derive_precursor_mz_from_parent_mass example_env (Some ?t1)) = Inr (Some 201)"
    by (metis Inr_inject option.inject)
  from round_trip [OF p2 h2] f2 same2
  have b2: "snd (derive_precursor_mz_from_parent_mass example_env (Some ?t2)) = Inr (Some 201)"
    by (metis Inr_inject option.inject)
  from f1 b1 f2 b2 show ?thesis
    by (intro conjI)
qed

text \<open>
  With \<open>estimate_from_adduct\<close> unset and an adduct that resolves, the two directions use
  different parameters (the charge forwards, the adduct backwards) and the value is not
  recovered: here 201 comes back as 201 - 1.00727645199076 + 22.989218.
\<close>

lemma round_trip_needs_same_path:
  "snd (derive_parent_mass_from_precursor_mz example_env
          (Some (example_spectrum [(''precursor_mz'', Num 201), (''adduct'', Str ''[M+Na]+''), (''charge'', Num 1)])) False)
     = Inr (Some (201 - 1.00727645199076))
   \<and> snd (derive_precursor_mz_from_parent_mass example_env
          (Some (spectrum_set
                   (example_spectrum [(''precursor_mz'', Num 201), (''adduct'', Str ''[M+Na]+''), (''charge'', Num 1)])
                   ''parent_mass'' (Num (201 - 1.00727645199076)))))
     = Inr (Some (201 - 1.00727645199076 + 22.989218))"
  by (simp add: derive_parent_mass_from_precursor_mz_def derive_precursor_mz_from_parent_mass_def
      get_charge_def is_valid_charge_def parent_mass_charge_def precursor_mz_adduct_def
      get_multiplier_and_correction_mass_from_adduct_def example_env_def example_spectrum_def
      spectrum_get_def spectrum_set_def)

section \<open>Properties of the annotation check\<close>

lemma prefix14_eq_strings: "prefix14_eq (Some (Str a)) (Some (Str b)) = Inr (take 14 a = take 14 b)"
  by (simp add: prefix14_eq_def)

lemma require_annotation_check1:
  assumes "\<not> is_valid_smiles env (spectrum_get s ''smiles'')"
  shows "require_annotation env (Some s) = ([removed_smiles_invalid], Inr None)"
  using assms by (simp add: require_annotation_def clone_def)

lemma require_annotation_check2:
  assumes "is_valid_smiles env (spectrum_get s ''smiles'')"
    and "\<not> is_valid_inchikey env (spectrum_get s ''inchikey'')"
  shows "require_annotation env (Some s) = ([removed_inchikey_invalid], Inr None)"
  using assms by (simp add: require_annotation_def clone_def)

lemma require_annotation_check3:
  assumes "is_valid_smiles env (spectrum_get s ''smiles'')"
    and "is_valid_inchikey env (spectrum_get s ''inchikey'')"
    and "\<not> is_valid_inchi env (spectrum_get s ''inchi'')"
  shows "require_annotation env (Some s) = ([removed_inchi_invalid], Inr None)"
  using assms by (simp add: require_annotation_def clone_def)

lemma require_annotation_valid:
  assumes "is_valid_smiles env (spectrum_get s ''smiles'')"
    and "is_valid_inchikey env (spectrum_get s ''inchikey'')"
    and "is_valid_inchi env (spectrum_get s ''inchi'')"
  shows "require_annotation env (Some s) =
    (case prefix14_eq (spectrum_get s ''inchikey'')
            (convert_inchi_to_inchikey env (spectrum_get s ''inchi'')) of
       Inl e \<Rightarrow> ([], Inl e)
     | Inr False \<Rightarrow> ([removed_inchi_mismatch], Inr None)
     | Inr True \<Rightarrow>
         (case prefix14_eq (spectrum_get s ''inchikey'')
                 (convert_inchi_to_inchikey env
                    (convert_smiles_to_inchi env (spectrum_get s ''smiles''))) of
            Inl e \<Rightarrow> ([], Inl e)
          | Inr False \<Rightarrow> ([removed_smiles_mismatch], Inr None)
          | Inr True \<Rightarrow> ([], Inr (Some s))))"
  using assms by (simp add: require_annotation_def clone_def Let_def)

lemma require_annotation_check4:
  assumes "is_valid_smiles env (spectrum_get s ''smiles'')"
    and "is_valid_inchikey env (spectrum_get s ''inchikey'')"
    and "is_valid_inchi env (spectrum_get s ''inchi'')"
    and "spectrum_get s ''inchikey'' = Some (Str k)"
    and "convert_inchi_to_inchikey env (spectrum_get s ''inchi'') = Some (Str k1)"
    and "take 14 k \<noteq> take 14 k1"
  shows "require_annotation env (Some s) = ([removed_inchi_mismatch], Inr None)"
  using assms(4-6)
  by (simp add: require_annotation_valid [OF assms(1-3)] prefix14_eq_strings)

lemma require_annotation_check5:
  assumes "is_valid_smiles env (spectrum_get s ''smiles'')"
    and "is_valid_inchikey env (spectrum_get s ''inchikey'')"
    and "is_valid_inchi env (spectrum_get s ''inchi'')"
    and "spectrum_get s ''inchikey'' = Some (Str k)"
    and "convert_inchi_to_inchikey env (spectrum_get s ''inchi'') = Some (Str k1)"
    and "take 14 k = take 14 k1"
    and "convert_inchi_to_inchikey env (convert_smiles_to_inchi env (spectrum_get s ''smiles'')) = Some (Str k2)"
    and "take 14 k \<noteq> take 14 k2"
  shows "require_annotation env (Some s) = ([removed_smiles_mismatch], Inr None)"
  using assms(4-8)
  by (simp add: require_annotation_valid [OF assms(1-3)] prefix14_eq_strings)

lemma require_annotation_all_pass:
  assumes "is_valid_smiles env (spectrum_get s ''smiles'')"
    and "is_valid_inchikey env (spectrum_get s ''inchikey'')"
    and "is_valid_inchi env (spectrum_get s ''inchi'')"
    and "spectrum_get s ''inchikey'' = Some (Str k)"
    and "convert_inchi_to_inchikey env (spectrum_get s ''inchi'') = Some (Str k1)"
    and "take 14 k = take 14 k1"
    and "convert_inchi_to_inchikey env (convert_smiles_to_inchi env (spectrum_get s ''smiles'')) = Some (Str k2)"
    and "take 14 k = take 14 k2"
  shows "require_annotation env (Some s) = ([], Inr (Some s))"
  using assms(4-8)
  by (simp add: require_annotation_valid [OF assms(1-3)] prefix14_eq_strings)

text \<open>
  C2. For a spectrum that is not \<open>None\<close>, \<open>require_annotation\<close> evaluates five checks in
  this order and stops at the first that fails, returning \<open>None\<close> with the log record of that
  check: (1) smiles valid, (2) inchikey valid, (3) inchi valid, (4) the first 14 characters of
  the inchikey equal those of the InChIKey converted from the inchi, (5) they equal those of
  the InChIKey converted from the smiles through its InChI. If all five pass, the spectrum is
  returned. Checks 4 and 5 compare strings: the inchikey and the converted keys are strings.
\<close>

theorem require_annotation_checks:
  "(\<not> is_valid_smiles env (spectrum_get s ''smiles'') \<longrightarrow>
      require_annotation env (Some s) = ([removed_smiles_invalid], Inr None))
   \<and> (is_valid_smiles env (spectrum_get s ''smiles'')
      \<and> \<not> is_valid_inchikey env (spectrum_get s ''inchikey'') \<longrightarrow>
      require_annotation env (Some s) = ([removed_inchikey_invalid], Inr None))
   \<and> (is_valid_smiles env (spectrum_get s ''smiles'')
      \<and> is_valid_inchikey env (spectrum_get s ''inchikey'')
      \<and> \<not> is_valid_inchi env (spectrum_get s ''inchi'') \<longrightarrow>
      require_annotation env (Some s) = ([removed_inchi_invalid], Inr None))
   \<and> (\<forall>k k1. is_valid_smiles env (spectrum_get s ''smiles'')
      \<and> is_valid_inchikey env (spectrum_get s ''inchikey'')
      \<and> is_valid_inchi env (spectrum_get s ''inchi'')
      \<and> spectrum_get s ''inchikey'' = Some (Str k)
      \<and> convert_inchi_to_inchikey env (spectrum_get s ''inchi'') = Some (Str k1)
      \<and> take 14 k \<noteq> take 14 k1 \<longrightarrow>
      require_annotation env (Some s) = ([removed_inchi_mismatch], Inr None))
   \<and> (\<forall>k k1 k2. is_valid_smiles env (spectrum_get s ''smiles'')
      \<and> is_valid_inchikey env (spectrum_get s ''inchikey'')
      \<and> is_valid_inchi env (spectrum_get s ''inchi'')
      \<and> spectrum_get s ''inchikey'' = Some (Str k)
      \<and> convert_inchi_to_inchikey env (spectrum_get s ''inchi'') = Some (Str k1)
      \<and> take 14 k = take 14 k1
      \<and> convert_inchi_to_inchikey env (convert_smiles_to_inchi env (spectrum_get s ''smiles'')) = Some (Str k2)
      \<and> take 14 k \<noteq> take 14 k2 \<longrightarrow>
      require_annotation env (Some s) = ([removed_smiles_mismatch], Inr None))
   \<and> (\<forall>k k1 k2. is_valid_smiles env (spectrum_get s ''smiles'')
      \<and> is_valid_inchikey env (spectrum_get s ''inchikey'')
      \<and> is_valid_inchi env (spectrum_get s ''inchi'')
      \<and> spectrum_get s ''inchikey'' = Some (Str k)
      \<and> convert_inchi_to_inchikey env (spectrum_get s ''inchi'') = Some (Str k1)
      \<and> take 14 k = take 14 k1
      \<and> convert_inchi_to_inchikey env (convert_smiles_to_inchi env (spectrum_get s ''smiles'')) = Some (Str k2)
      \<and> take 14 k = take 14 k2 \<longrightarrow>
      require_annotation env (Some s) = ([], Inr (Some s)))"
proof (intro conjI allI impI)
  show "require_annotation env (Some s) = ([removed_smiles_invalid], Inr None)"
    if "\<not> is_valid_smiles env (spectrum_get s ''smiles'')"
    using that by (rule require_annotation_check1)
next
  show "require_annotation env (Some s) = ([removed_inchikey_invalid], Inr None)"
    if "is_valid_smiles env (spectrum_get s ''smiles'')
      \<and> \<not> is_valid_inchikey env (spectrum_get s ''inchikey'')"
    using that by (simp add: require_annotation_check2)
next
  show "require_annotation env (Some s) = ([removed_inchi_invalid], Inr None)"
    if "is_valid_smiles env (spectrum_get s ''smiles'')
      \<and> is_valid_inchikey env (spectrum_get s ''inchikey'')
      \<and> \<not> is_valid_inchi env (spectrum_get s ''inchi'')"
    using that by (simp add: require_annotation_check3)
next
  fix k k1
  show "require_annotation env (Some s) = ([removed_inchi_mismatch], Inr None)"
    if "is_valid_smiles env (spectrum_get s ''smiles'')
      \<and> is_valid_inchikey env (spectrum_get s ''inchikey'')
      \<and> is_valid_inchi env (spectrum_get s ''inchi'')
      \<and> spectrum_get s ''inchikey'' = Some (Str k)
      \<and> convert_inchi_to_inchikey env (spectrum_get s ''inchi'') = Some (Str k1)
      \<and> take 14 k \<noteq> take 14 k1"
    using that require_annotation_check4 [of env s k k1] by blast
next
  fix k k1 k2
  show "require_annotation env (Some s) = ([removed_smiles_mismatch], Inr None)"
    if "is_valid_smiles env (spectrum_get s ''smiles'')
      \<and> is_valid_inchikey env (spectrum_get s ''inchikey'')
      \<and> is_valid_inchi env (spectrum_get s ''inchi'')
      \<and> spectrum_get s ''inchikey'' = Some (Str k)
      \<and> convert_inchi_to_inchikey env (spectrum_get s ''inchi'') = Some (Str k1)
      \<and> take 14 k = take 14 k1
      \<and> convert_inchi_to_inchikey env (convert_smiles_to_inchi env (spectrum_get s ''smiles'')) = Some (Str k2)
      \<and> take 14 k \<noteq> take 14 k2"
    using that require_annotation_check5 [of env s k k1 k2] by blast
next
  fix k k1 k2
  show "require_annotation env (Some s) = ([], Inr (Some s))"
    if "is_valid_smiles env (spectrum_get s ''smiles'')
      \<and> is_valid_inchikey env (spectrum_get s ''inchikey'')
      \<and> is_valid_inchi env (spectrum_get s ''inchi'')
      \<and> spectrum_get s ''inchikey'' = Some (Str k)
      \<and> convert_inchi_to_inchikey env (spectrum_get s ''inchi'') = Some (Str k1)
      \<and> take 14 k = take 14 k1
      \<and> convert_inchi_to_inchikey env (convert_smiles_to_inchi env (spectrum_get s ''smiles'')) = Some (Str k2)
      \<and> take 14 k = take 14 k2"
    using that require_annotation_all_pass [of env s k k1 k2] by blast
qed

theorem require_annotation_checks_witness:
  "require_annotation example_chem_env
      (Some (example_spectrum [(''inchi'', Str ''InChI=1S/CH4/h1H4''), (''inchikey'', Str ''VNWKTOKETHGBQD-UHFFFAOYSA-N'')]))
     = ([removed_smiles_invalid], Inr None)
   \<and> require_annotation example_chem_env
      (Some (example_spectrum [(''smiles'', Str ''C''), (''inchi'', Str ''InChI=1S/CH4/h1H4''), (''inchikey'', Str ''n/a'')]))
     = ([removed_inchikey_invalid], Inr None)
   \<and> require_annotation example_chem_env
      (Some (example_spectrum [(''smiles'', Str ''C''), (''inchi'', Str ''CH4''), (''inchikey'', Str ''VNWKTOKETHGBQD-UHFFFAOYSA-N'')]))
     = ([removed_inchi_invalid], Inr None)
   \<and> require_annotation example_chem_env
      (Some (example_spectrum [(''smiles'', Str ''C''), (''inchi'', Str ''InChI=1S/C2H6/c1-2/h1-2H3''), (''inchikey'', Str ''VNWKTOKETHGBQD-UHFFFAOYSA-N'')]))
     = ([removed_inchi_mismatch], Inr None)
   \<and> require_annotation example_chem_env
      (Some (example_spectrum [(''smiles'', Str ''CC''), (''inchi'', Str ''InChI=1S/CH4/h1H4''), (''inchikey'', Str ''VNWKTOKETHGBQD-UHFFFAOYSA-N'')]))
     = ([removed_smiles_mismatch], Inr None)
   \<and> require_annotation example_chem_env
      (Some (example_spectrum [(''smiles'', Str ''C''), (''inchi'', Str ''InChI=1S/CH4/h1H4''), (''inchikey'', Str ''VNWKTOKETHGBQD-XXXXXXXXXX-N'')]))
     = ([], Inr (Some (example_spectrum [(''smiles'', Str ''C''), (''inchi'', Str ''InChI=1S/CH4/h1H4''), (''inchikey'', Str ''VNWKTOKETHGBQD-XXXXXXXXXX-N'')])))"
proof -
  let ?s1 = "example_spectrum [(''inchi'', Str ''InChI=1S/CH4/h1H4''), (''inchikey'', Str ''VNWKTOKETHGBQD-UHFFFAOYSA-N'')]"
  let ?s2 = "example_spectrum [(''smiles'', Str ''C''), (''inchi'', Str ''InChI=1S/CH4/h1H4''), (''inchikey'', Str ''n/a'')]"
  let ?s3 = "example_spectrum [(''smiles'', Str ''C''), (''inchi'', Str ''CH4''), (''inchikey'', Str ''VNWKTOKETHGBQD-UHFFFAOYSA-N'')]"
  let ?s4 = "example_spectrum [(''smiles'', Str ''C''), (''inchi'', Str ''InChI=1S/C2H6/c1-2/h1-2H3''), (''inchikey'', Str ''VNWKTOKETHGBQD-UHFFFAOYSA-N'')]"
  let ?s5 = "example_spectrum [(''smiles'', Str ''CC''), (''inchi'', Str ''InChI=1S/CH4/h1H4''), (''inchikey'', Str ''VNWKTOKETHGBQD-UHFFFAOYSA-N'')]"
  let ?s6 = "example_spectrum [(''smiles'', Str ''C''), (''inchi'', Str ''InChI=1S/CH4/h1H4''), (''inchikey'', Str ''VNWKTOKETHGBQD-XXXXXXXXXX-N'')]"
  have h1: "\<not> is_valid_smiles example_chem_env (spectrum_get ?s1 ''smiles'')"
    by (simp add: example_chem_env_def spectrum_get_def example_spectrum_def)
  have h2: "is_valid_smiles example_chem_env (spectrum_get ?s2 ''smiles'')
      \<and> \<not> is_valid_inchikey example_chem_env (spectrum_get ?s2 ''inchikey'')"
    by (simp add: example_chem_env_def spectrum_get_def example_spectrum_def)
  have h3: "is_valid_smiles example_chem_env (spectrum_get ?s3 ''smiles'')
      \<and> is_valid_inchikey example_chem_env (spectrum_get ?s3 ''inchikey'')
      \<and> \<not> is_valid_inchi example_chem_env (spectrum_get ?s3 ''inchi'')"
    by (simp add: example_chem_env_def spectrum_get_def example_spectrum_def)
  have h4: "is_valid_smiles example_chem_env (spectrum_get ?s4 ''smiles'')
      \<and> is_valid_inchikey example_chem_env (spectrum_get ?s4 ''inchikey'')
      \<and> is_valid_inchi example_chem_env (spectrum_get ?s4 ''inchi'')
      \<and> spectrum_get ?s4 ''inchikey'' = Some (Str ''VNWKTOKETHGBQD-UHFFFAOYSA-N'')
      \<and> convert_inchi_to_inchikey example_chem_env (spectrum_get ?s4 ''inchi'') = Some (Str ''OTMSDBZUPAUEDD-UHFFFAOYSA-N'')
      \<and> take 14 ''VNWKTOKETHGBQD-UHFFFAOYSA-N'' \<noteq> take 14 ''OTMSDBZUPAUEDD-UHFFFAOYSA-N''"
    by (simp add: example_chem_env_def spectrum_get_def example_spectrum_def)
  have h5: "is_valid_smiles example_chem_env (spectrum_get ?s5 ''smiles'')
      \<and> is_valid_inchikey example_chem_env (spectrum_get ?s5 ''inchikey'')
      \<and> is_valid_inchi example_chem_env (spectrum_get ?s5 ''inchi'')
      \<and> spectrum_get ?s5 ''inchikey'' = Some (Str ''VNWKTOKETHGBQD-UHFFFAOYSA-N'')
      \<and> convert_inchi_to_inchikey example_chem_env (spectrum_get ?s5 ''inchi'') = Some (Str ''VNWKTOKETHGBQD-UHFFFAOYSA-N'')
      \<and> take 14 ''VNWKTOKETHGBQD-UHFFFAOYSA-N'' = take 14 ''VNWKTOKETHGBQD-UHFFFAOYSA-N''
      \<and> convert_inchi_to_inchikey example_chem_env
            (convert_smiles_to_inchi example_chem_env (spectrum_get ?s5 ''smiles'')) = Some (Str ''OTMSDBZUPAUEDD-UHFFFAOYSA-N'')
      \<and> take 14 ''VNWKTOKETHGBQD-UHFFFAOYSA-N'' \<noteq> take 14 ''OTMSDBZUPAUEDD-UHFFFAOYSA-N''"
    by (simp add: example_chem_env_def spectrum_get_def example_spectrum_def)
  have h6: "is_valid_smiles example_chem_env (spectrum_get ?s6 ''smiles'')
      \<and> is_valid_inchikey example_chem_env (spectrum_get ?s6 ''inchikey'')
      \<and> is_valid_inchi example_chem_env (spectrum_get ?s6 ''inchi'')
      \<and> spectrum_get ?s6 ''inchikey'' = Some (Str ''VNWKTOKETHGBQD-XXXXXXXXXX-N'')
      \<and> convert_inchi_to_inchikey example_chem_env (spectrum_get ?s6 ''inchi'') = Some (Str ''VNWKTOKETHGBQD-UHFFFAOYSA-N'')
      \<and> take 14 ''VNWKTOKETHGBQD-XXXXXXXXXX-N'' = take 14 ''VNWKTOKETHGBQD-UHFFFAOYSA-N''
      \<and> convert_inchi_to_inchikey example_chem_env
            (convert_smiles_to_inchi example_chem_env (spectrum_get ?s6 ''smiles'')) = Some (Str ''VNWKTOKETHGBQD-UHFFFAOYSA-N'')
      \<and> take 14 ''VNWKTOKETHGBQD-XXXXXXXXXX-N'' = take 14 ''VNWKTOKETHGBQD-UHFFFAOYSA-N''"
    by (simp add: example_chem_env_def spectrum_get_def example_spectrum_def)
  have r1: "require_annotation example_chem_env (Some ?s1) = ([removed_smiles_invalid], Inr None)"
    using require_annotation_checks [of example_chem_env ?s1] h1 by blast
  have r2: "require_annotation example_chem_env (Some ?s2) = ([removed_inchikey_invalid], Inr None)"
    using require_annotation_checks [of example_chem_env ?s2] h2 by blast
  have r3: "require_annotation example_chem_env (Some ?s3) = ([removed_inchi_invalid], Inr None)"
    using require_annotation_checks [of example_chem_env ?s3] h3 by blast
  have r4: "require_annotation example_chem_env (Some ?s4) = ([removed_inchi_mismatch], Inr None)"
    using require_annotation_checks [of example_chem_env ?s4] h4 by blast
  have r5: "require_annotation example_chem_env (Some ?s5) = ([removed_smiles_mismatch], Inr None)"
    using require_annotation_checks [of example_chem_env ?s5] h5 by blast
  have r6: "require_annotation example_chem_env (Some ?s6) = ([], Inr (Some ?s6))"
    using require_annotation_checks [of example_chem_env ?s6] h6 by blast
  from r1 r2 r3 r4 r5 r6 show ?thesis by blast
qed

text \<open>
  A conversion that returns \<open>None\<close> for a valid inchi makes the slice of check 4 raise.
\<close>

lemma require_annotation_conversion_none:
  assumes "is_valid_smiles env (spectrum_get s ''smiles'')"
    and "is_valid_inchikey env (spectrum_get s ''inchikey'')"
    and "is_valid_inchi env (spectrum_get s ''inchi'')"
    and "spectrum_get s ''inchikey'' = Some (Str k)"
    and "convert_inchi_to_inchikey env (spectrum_get s ''inchi'') = None"
  shows "require_annotation env (Some s) = ([], Inl TypeError)"
  using assms
  by (simp add: require_annotation_def clone_def Let_def prefix14_eq_def)

section \<open>Properties of the pipeline\<close>

text \<open>
  C7. \<open>process_spectrum\<close> on a processor whose filter list is empty fails with the
  configuration error "no filters configured", for every spectrum and report; it returns no
  value.
\<close>

theorem empty_pipeline_fails:
  "filters p = [] \<longrightarrow>
     process_spectrum p s r = Inl NoFiltersConfigured
     \<and> (\<forall>out. process_spectrum p s r \<noteq> Inr out)"
  by (simp add: process_spectrum_def)

theorem empty_pipeline_fails_witness:
  "construct example_catalog None = Inr \<lparr>known_steps = [], custom_filters = []\<rparr>
   \<and> process_spectrum \<lparr>known_steps = [], custom_filters = []\<rparr> (example_spectrum []) None
       = Inl NoFiltersConfigured"
proof -
  have "filters \<lparr>known_steps = [], custom_filters = []\<rparr> = []"
    by (simp add: filters_def)
  with empty_pipeline_fails [of "\<lparr>known_steps = [], custom_filters = []\<rparr>" "example_spectrum []" None]
  show ?thesis
    by (simp add: construct_def)
qed

lemma add_known_filter_customs:
  "add_known_filter cat p name ps = Inr p' \<Longrightarrow> custom_filters p' = custom_filters p"
  by (auto simp: add_known_filter_def split: sum.splits)

lemma seed_steps_customs:
  "seed_steps cat steps p = Inr p' \<Longrightarrow> custom_filters p' = custom_filters p"
proof (induction steps arbitrary: p)
  case Nil
  then show ?case by simp
next
  case (Cons st steps)
  obtain name ps where st: "st = (name, ps)"
    by (cases st)
  from Cons.prems st obtain q where q: "add_known_filter cat p name ps = Inr q"
    and rest: "seed_steps cat steps q = Inr p'"
    by (auto split: sum.splits)
  from Cons.IH [OF rest] add_known_filter_customs [OF q] show ?case
    by simp
qed

lemma construct_customs: "construct cat preset = Inr p \<Longrightarrow> custom_filters p = []"
  by (auto simp: construct_def split: option.splits dest: seed_steps_customs)

lemma apply_op_customs:
  "apply_op cat p x = Inr p' \<Longrightarrow> custom_filters p' = custom_filters p @ customs_of [x]"
proof (cases x)
  case (AddFilter a)
  assume "apply_op cat p x = Inr p'"
  with AddFilter show ?thesis
    by (cases a) (auto simp: add_custom_filter_def dest: add_known_filter_customs)
next
  case (AddCustomFilter f ps)
  assume "apply_op cat p x = Inr p'"
  with AddCustomFilter show ?thesis
    by (auto simp: add_custom_filter_def)
qed

lemma customs_of_Cons: "customs_of (x # xs) = customs_of [x] @ customs_of xs"
proof (cases x)
  case (AddFilter a)
  then show ?thesis by (cases a) simp_all
next
  case (AddCustomFilter f ps)
  then show ?thesis by simp
qed

lemma apply_ops_customs:
  "apply_ops cat p ops = Inr p' \<Longrightarrow> custom_filters p' = custom_filters p @ customs_of ops"
proof (induction ops arbitrary: p)
  case Nil
  then show ?case by simp
next
  case (Cons x xs)
  from Cons.prems obtain q where q: "apply_op cat p x = Inr q"
    and rest: "apply_ops cat q xs = Inr p'"
    by (auto split: sum.splits)
  from Cons.IH [OF rest] apply_op_customs [OF q] show ?case
    by (simp add: customs_of_Cons [of x xs])
qed

lemma origin_bind [simp]:
  "callable_origin (bind_known st) = Known" "callable_origin (bind_custom c) = Custom"
  by (simp_all add: bind_known_def bind_custom_def)

lemma known_before_custom:
  assumes "fs = map bind_known ks @ map bind_custom cs"
    and "i < length fs" "j < length fs"
    and "callable_origin (fs ! i) = Known" "callable_origin (fs ! j) = Custom"
  shows "i < j"
proof -
  have i: "i < length ks"
  proof (rule ccontr)
    assume "\<not> i < length ks"
    then have "fs ! i = map bind_custom cs ! (i - length ks)" "i - length ks < length cs"
      using assms(1,2) by (simp_all add: nth_append)
    then show False using assms(4) by simp
  qed
  have j: "\<not> j < length ks"
  proof
    assume "j < length ks"
    then have "fs ! j = bind_known (ks ! j)"
      using assms(1) by (simp add: nth_append)
    then show False using assms(5) by simp
  qed
  from i j show ?thesis by simp
qed

text \<open>
  C8. For every configuration (a preset or none, then any sequence of \<open>add_filter\<close> and
  \<open>add_custom_filter\<close> calls), the executed sequence is the known filters followed by the
  custom filters in the order in which they were added: every custom filter comes after
  every known filter, whenever it was added.
\<close>

theorem custom_filters_run_last:
  assumes "construct cat preset = Inr p0"
    and "apply_ops cat p0 ops = Inr p"
  shows "filters p = map bind_known (known_steps p) @ map bind_custom (customs_of ops)
     \<and> filter (\<lambda>f. callable_origin f = Custom) (filters p) = map bind_custom (customs_of ops)
     \<and> (\<forall>i j. i < length (filters p) \<and> j < length (filters p)
           \<and> callable_origin (filters p ! i) = Known \<and> callable_origin (filters p ! j) = Custom
          \<longrightarrow> i < j)"
proof -
  have cs: "custom_filters p = customs_of ops"
    using apply_ops_customs [OF assms(2)] construct_customs [OF assms(1)] by simp
  then have eq: "filters p = map bind_known (known_steps p) @ map bind_custom (customs_of ops)"
    by (simp add: filters_def)
  have "filter (\<lambda>f. callable_origin f = Custom) (filters p) = map bind_custom (customs_of ops)"
    by (simp add: eq filter_map comp_def)
  moreover have "\<forall>i j. i < length (filters p) \<and> j < length (filters p)
           \<and> callable_origin (filters p ! i) = Known \<and> callable_origin (filters p ! j) = Custom
          \<longrightarrow> i < j"
    using known_before_custom [OF eq] by blast
  ultimately show ?thesis
    using eq by simp
qed

theorem custom_filters_run_last_witness:
  "\<exists>p. construct example_catalog None = Inr \<lparr>known_steps = [], custom_filters = []\<rparr>
     \<and> apply_ops example_catalog \<lparr>known_steps = [], custom_filters = []\<rparr>
          [AddCustomFilter nonsense_inchikey None, AddFilter (FilterName ''derive_ionmode''),
           AddFilter (FunctionParams nonsense_smiles []), AddFilter (FilterName ''make_charge_int'')]
         = Inr p
     \<and> map callable_name (filters p) =
          [''make_charge_int'', ''derive_ionmode'', ''nonsense_inchikey'', ''nonsense_smiles'']
     \<and> map callable_origin (filters p) = [Known, Known, Custom, Custom]"
proof -
  let ?p0 = "\<lparr>known_steps = [], custom_filters = []\<rparr>"
  let ?ops = "[AddCustomFilter nonsense_inchikey None, AddFilter (FilterName ''derive_ionmode''),
           AddFilter (FunctionParams nonsense_smiles []), AddFilter (FilterName ''make_charge_int'')]"
  have c: "construct example_catalog None = Inr ?p0"
    by (simp add: construct_def)
  have "\<exists>p. apply_ops example_catalog ?p0 ?ops = Inr p
      \<and> map step_name (known_steps p) = [''make_charge_int'', ''derive_ionmode'']"
    by (simp add: example_catalog_def keep_filter_def add_known_filter_def resolve_def
        merge_params_def ordinal_def add_custom_filter_def)
  then obtain p where a: "apply_ops example_catalog ?p0 ?ops = Inr p"
    and k: "map step_name (known_steps p) = [''make_charge_int'', ''derive_ionmode'']"
    by (elim exE conjE)
  have eq: "filters p = map bind_known (known_steps p) @ map bind_custom (customs_of ?ops)"
    using custom_filters_run_last [OF c a] by (elim conjE)
  have names: "map callable_name (map bind_known (known_steps p)) = map step_name (known_steps p)"
    by (simp add: bind_known_def comp_def)
  have len: "length (known_steps p) = Suc (Suc 0)"
    using arg_cong [OF k, of length] by simp
  have origins: "map callable_origin (map bind_known (known_steps p)) = [Known, Known]"
    using len by (cases "known_steps p"; cases "tl (known_steps p)") (auto simp: bind_known_def)
  have customs: "map callable_name (map bind_custom (customs_of ?ops)) = [''nonsense_inchikey'', ''nonsense_smiles'']"
    "map callable_origin (map bind_custom (customs_of ?ops)) = [Custom, Custom]"
    by (simp_all add: bind_custom_def nonsense_inchikey_def nonsense_smiles_def)
  have n: "map callable_name (filters p) =
      [''make_charge_int'', ''derive_ionmode'', ''nonsense_inchikey'', ''nonsense_smiles'']"
    unfolding eq map_append names k customs by simp
  have o: "map callable_origin (filters p) = [Known, Known, Custom, Custom]"
    unfolding eq map_append origins customs by simp
  from c a n o show ?thesis
    by (intro exI [of _ p] conjI)
qed

section \<open>Properties of the processing report\<close>






lemma add_to_report_keeps_processed:
  "counter_number_processed (add_to_report before after name r) = counter_number_processed r"
  by (cases after) (simp_all add: add_to_report_def)

lemma run_filters_processed:
  "map_option counter_number_processed (snd (run_filters fs s r)) = map_option counter_number_processed r"
proof (induction fs arbitrary: s r)
  case Nil
  then show ?case by simp
next
  case (Cons f fs)
  show ?case
  proof (cases "callable_fn f s")
    case None
    then show ?thesis
      by (simp add: option.map_comp comp_def add_to_report_keeps_processed)
  next
    case (Some s')
    then show ?thesis
      using Cons.IH [of s' "map_option (add_to_report s (Some s') (callable_name f)) r"]
      by (simp add: option.map_comp comp_def add_to_report_keeps_processed)
  qed
qed

text \<open>
  A spectrum is counted once by \<open>process_spectrum\<close>, however many filters report on it.
\<close>

lemma process_spectrum_counts_once:
  assumes "filters p \<noteq> []"
  shows "\<exists>out r'. process_spectrum p s (Some r) = Inr (out, Some r')
           \<and> counter_number_processed r' = Suc (counter_number_processed r)"
proof -
  obtain out ro where run: "run_filters (filters p) s (Some (count_processed r)) = (out, ro)"
    by fastforce
  have "map_option counter_number_processed ro = Some (Suc (counter_number_processed r))"
    using run_filters_processed [of "filters p" s "Some (count_processed r)"] run
    by (simp add: count_processed_def)
  then obtain r' where "ro = Some r'" "counter_number_processed r' = Suc (counter_number_processed r)"
    by auto
  then show ?thesis
    using assms run by (simp add: process_spectrum_def)
qed

text \<open>
  The run of \<open>test_filter_spectrums_report\<close>: three spectra that pass the four filters of the
  "minimal" preset leave the processed counter at 3, the value the test asserts.
\<close>

lemma processed_example:
  "processed_by_preset example_catalog ''minimal'' example_spectrums = Inr (Some 3)"
  by (simp add: processed_by_preset_def construct_def example_catalog_def keep_filter_def
      add_known_filter_def resolve_def merge_params_def ordinal_def process_spectrums_def
      process_spectrum_def filters_def bind_known_def example_spectrums_def empty_report_def
      count_processed_def add_to_report_def Let_def added_keys_def changed_keys_def spectrum_get_def)




end
